theory Spec2Isabelle
  imports Complex_Main "HOL-Library.AList" "HOL-Library.Multiset"
begin

section \<open>Errors and constants\<close>

datatype error = ValueError | TypeError | NameError | KeyError | IndexError | AttributeError

text \<open>The two module-level dictionaries, as association lists in source order.\<close>

definition PORT_TO_TERR :: "(string \<times> string) list" where
  "PORT_TO_TERR = [(''BRICK'', ''HILL''), (''GRAIN'', ''FIELD''), (''ROCK'', ''MNTN''),
     (''SHEEP'', ''PSTR''), (''WOOD'', ''FRST'')]"

definition TERR_TO_PORT :: "(string \<times> string) list" where
  "TERR_TO_PORT = [(''FIELD'', ''GRAIN''), (''FRST'', ''WOOD''), (''HILLS'', ''BRICK''),
     (''MNTN'', ''ROCK''), (''PSTR'', ''SHEEP'')]"

text \<open>Subscripting a dictionary: a missing key raises \<open>KeyError\<close>.\<close>

definition subscript :: "('k \<times> 'v) list \<Rightarrow> 'k \<Rightarrow> error + 'v" where
  "subscript d k = (case map_of d k of None \<Rightarrow> Inl KeyError | Some v \<Rightarrow> Inr v)"

section \<open>Tiles: classes Hex and CatanHex\<close>

text \<open>
  A tile is referred to by its \<open>id\<close>. \<open>Hex.next_id\<close> counts every tile ever created, so
  the tiles form an arena (\<open>heap\<close>) in which the tile with id \<open>i\<close> sits at index \<open>i\<close>
  and \<open>Hex.next_id\<close> is the length of the arena. Python compares tiles by identity, which
  is equality of ids here.

  \<open>neighbors\<close> is the dictionary from angle to neighbour, \<open>None\<close> for an empty slot.
  \<open>y\<close> is a float in the source; every value it takes is a small multiple of one half,
  which floats represent exactly, so it is a real number here.
\<close>

text \<open>
  What gets stored as a production number: an int, or a string (\<open>begin_num\<close> ends with
  \<open>''\<close>).
\<close>

datatype pynum = PyInt int | PyStr string

record hex =
  hex_x :: int
  hex_y :: real
  neighbors :: "(int \<times> nat option) list"
  terr :: string
  num :: pynum
  pips :: int
  port :: bool

definition angles :: "int list" where
  "angles = [0, 60, 120, 180, 240, 300]"

definition angle_xy :: "int \<Rightarrow> int \<times> real" where
  "angle_xy a = (if a = 0 then (0, -1) else if a = 60 then (1, -1/2)
     else if a = 120 then (1, 1/2) else if a = 180 then (0, 1)
     else if a = 240 then (-1, 1/2) else (-1, -1/2))"

text \<open>
  \<open>tile.neighbors[angle]\<close>. The dictionary always holds the six angles; the model is used
  at these angles only (any other key raises \<open>KeyError\<close> in the source).
\<close>

definition nbr :: "hex \<Rightarrow> int \<Rightarrow> nat option" where
  "nbr t a = (case map_of (neighbors t) a of None \<Rightarrow> None | Some v \<Rightarrow> v)"

text \<open>
  The setter of the property \<open>num\<close>, two statements: \<open>self._num = value\<close>, then
  \<open>self.pips = 6 - abs(7 - value)\<close>. On a string the subtraction raises \<open>TypeError\<close>
  when the value is already stored. The result is the exception, if one was raised, and the
  tile as the setter leaves it.
\<close>

definition set_num :: "pynum \<Rightarrow> hex \<Rightarrow> error option \<times> hex" where
  "set_num val t =
     (let t1 = t\<lparr>num := val\<rparr>
      in (case val of
            PyInt v \<Rightarrow> (None, t1\<lparr>pips := 6 - \<bar>7 - v\<bar>\<rparr>)
          | PyStr s \<Rightarrow> (Some TypeError, t1)))"

text \<open>
  Keyword parameters of \<open>CatanHex.__init__\<close>, each with its default. The module passes no
  \<open>num\<close>; it is an int, as the docstrings have it, and assigning an int raises nothing.
\<close>

record hex_params =
  p_terr :: string
  p_num :: int
  p_port :: bool

definition default_params :: hex_params where
  "default_params = \<lparr>p_terr = ''NONE'', p_num = 0, p_port = False\<rparr>"

definition new_hex :: "hex_params \<Rightarrow> hex" where
  "new_hex p = snd (set_num (PyInt (p_num p))
     \<lparr>hex_x = 0, hex_y = 0, neighbors = map (\<lambda>angle. (angle, None)) angles,
      terr = p_terr p, num = PyInt 0, pips = 0, port = p_port p\<rparr>)"

definition set_neighbor :: "nat \<Rightarrow> int \<Rightarrow> nat option \<Rightarrow> hex list \<Rightarrow> hex list" where
  "set_neighbor t a v h = h[t := (h ! t)\<lparr>neighbors := AList.update a v (neighbors (h ! t))\<rparr>]"

definition new_neighbor :: "nat \<Rightarrow> int \<Rightarrow> nat \<Rightarrow> hex list \<Rightarrow> hex list" where
  "new_neighbor self angle neighbor h =
     (let h1 = set_neighbor self angle (Some neighbor) h;
          h2 = set_neighbor neighbor ((angle + 180) mod 360) (Some self) h1;
          (dx, dy) = angle_xy angle
      in h2[neighbor := (h2 ! neighbor)\<lparr>hex_x := hex_x (h2 ! self) + dx,
                                          hex_y := hex_y (h2 ! self) + dy\<rparr>])"

definition join_step :: "nat \<Rightarrow> int \<Rightarrow> hex list \<Rightarrow> hex list" where
  "join_step self angle h =
     (case nbr (h ! self) angle of
        None \<Rightarrow> h
      | Some target \<Rightarrow>
          (case nbr (h ! self) ((angle + 60) mod 360) of
             None \<Rightarrow> h
           | Some join \<Rightarrow> new_neighbor target ((angle + 120) mod 360) join h))"

definition join_neighbors :: "nat \<Rightarrow> hex list \<Rightarrow> hex list" where
  "join_neighbors self h = fold (join_step self) angles h"



section \<open>Class HexMap\<close>

record bounds =
  b_top :: real
  b_left :: int
  b_right :: int
  b_bottom :: real

record hexmap =
  heap :: "hex list"
  hexes :: "nat list"
  base_params :: hex_params
  map_bounds :: bounds

definition grow_step ::
  "nat \<Rightarrow> hex_params \<Rightarrow> int \<Rightarrow> hex list \<times> nat list \<Rightarrow> hex list \<times> nat list" where
  "grow_step tile params angle = (\<lambda>(h, new_hexes).
     (case nbr (h ! tile) angle of
        None \<Rightarrow> (new_neighbor tile angle (length h) (h @ [new_hex params]),
                 new_hexes @ [length h])
      | Some _ \<Rightarrow> (h, new_hexes)))"

definition grow_hex ::
  "nat \<Rightarrow> int list \<Rightarrow> hex_params option \<Rightarrow> 'a hexmap_scheme \<Rightarrow> nat list \<times> 'a hexmap_scheme" where
  "grow_hex tile as hex_params m =
     (let params = (case hex_params of None \<Rightarrow> base_params m | Some p \<Rightarrow> p);
          (h, new_hexes) = fold (grow_step tile params) as (heap m, [])
      in (new_hexes, m\<lparr>heap := join_neighbors tile h, hexes := hexes m @ new_hexes\<rparr>))"

definition grow_map_step ::
  "int list \<Rightarrow> hex_params option \<Rightarrow> nat \<Rightarrow> nat list \<times> 'a hexmap_scheme
     \<Rightarrow> nat list \<times> 'a hexmap_scheme" where
  "grow_map_step as hex_params tile = (\<lambda>(new_hexes, m).
     (let (more, m') = grow_hex tile as hex_params m in (new_hexes @ more, m')))"

definition grow_map ::
  "int list \<Rightarrow> hex_params option \<Rightarrow> 'a hexmap_scheme \<Rightarrow> nat list \<times> 'a hexmap_scheme" where
  "grow_map as hex_params m =
     (let params = (case hex_params of None \<Rightarrow> base_params m | Some p \<Rightarrow> p)
      in fold (grow_map_step as (Some params)) (hexes m) ([], m))"

definition start_hex :: "hex_params option \<Rightarrow> 'a hexmap_scheme \<Rightarrow> nat \<times> 'a hexmap_scheme" where
  "start_hex hex_params m =
     (let m1 = (case hex_params of None \<Rightarrow> m | Some p \<Rightarrow> m\<lparr>base_params := p\<rparr>)
      in (length (heap m1),
          m1\<lparr>heap := heap m1 @ [new_hex (base_params m1)],
             hexes := hexes m1 @ [length (heap m1)]\<rparr>))"

definition surround_hex ::
  "nat \<Rightarrow> hex_params option \<Rightarrow> 'a hexmap_scheme \<Rightarrow> nat list \<times> 'a hexmap_scheme" where
  "surround_hex tile hex_params m = grow_hex tile angles hex_params m"

definition surround_map ::
  "hex_params option \<Rightarrow> 'a hexmap_scheme \<Rightarrow> nat list \<times> 'a hexmap_scheme" where
  "surround_map hex_params m = grow_map angles hex_params m"

definition explore_step :: "hex list \<Rightarrow> nat \<Rightarrow> bounds \<Rightarrow> bounds" where
  "explore_step h tile b =
     \<lparr>b_top = min (hex_y (h ! tile)) (b_top b), b_left = min (hex_x (h ! tile)) (b_left b),
      b_right = max (hex_x (h ! tile)) (b_right b),
      b_bottom = max (hex_y (h ! tile)) (b_bottom b)\<rparr>"

definition explore :: "'a hexmap_scheme \<Rightarrow> 'a hexmap_scheme" where
  "explore m = m\<lparr>map_bounds := fold (explore_step (heap m)) (hexes m)
     \<lparr>b_top = 0, b_left = 0, b_right = 0, b_bottom = 0\<rparr>\<rparr>"

definition find_hex :: "'a hexmap_scheme \<Rightarrow> int \<Rightarrow> real \<Rightarrow> error + nat" where
  "find_hex m x y =
     (case filter (\<lambda>tile. hex_x (heap m ! tile) = x \<and> hex_y (heap m ! tile) = y) (hexes m) of
        [] \<Rightarrow> Inl ValueError
      | match # _ \<Rightarrow> Inr match)"

section \<open>Class CatanMap\<close>

record catan = hexmap +
  use_frame :: bool
  terrain :: "nat list"
  ports :: "nat list"
  columns :: "nat list"
  spiral :: "nat list"
  intersections :: "nat list set"
  tries :: nat

definition begin_num :: "pynum list" where
  "begin_num = map PyInt [5, 6, 11, 5, 8, 10, 9, 2, 10, 12, 9, 8, 3, 4, 3, 4, 6, 11] @ [PyStr '''']"



definition standard_num :: "pynum list" where
  "standard_num = map PyInt [5, 2, 6, 3, 8, 10, 9, 12, 11, 4, 8, 10, 9, 4, 5, 6, 3, 11]"

subsection \<open>build\<close>

text \<open>\<open>math.atan2(y, x)\<close>, the angle of the point \<open>(x, y)\<close> in \<open>(-pi, pi]\<close>.\<close>

definition atan2 :: "real \<Rightarrow> real \<Rightarrow> real" where
  "atan2 y x =
     (if 0 < x then arctan (y / x)
      else if x < 0 then (if 0 \<le> y then arctan (y / x) + pi else arctan (y / x) - pi)
      else if 0 < y then pi / 2 else if y < 0 then - (pi / 2) else 0)"

text \<open>The slice \<open>xs[1::2]\<close>.\<close>

fun every_other :: "'a list \<Rightarrow> 'a list" where
  "every_other (a # b # xs) = b # every_other xs"
| "every_other xs = []"

text \<open>
  \<open>ports.sort(key = ..., reverse = True)\<close>: Python's sort is stable, and with
  \<open>reverse = True\<close> it orders by descending key and keeps equal keys in their original
  order, which is the stable ascending sort by the negated key.
\<close>

definition sort_ports :: "hex list \<Rightarrow> nat list \<Rightarrow> nat list" where
  "sort_ports h ps = sort_key (\<lambda>tile. - atan2 (real_of_int (hex_x (h ! tile))) (hex_y (h ! tile))) ps"

text \<open>
  The statements of \<open>build\<close> up to the creation of the port candidates; the result is
  the local \<open>self.ports\<close> before it is sorted, and the map.
\<close>

definition build_tiles :: "catan \<Rightarrow> nat list \<times> catan" where
  "build_tiles m0 =
     (let (start, m1) = start_hex None m0;
          (mid_loop, m2) = surround_hex start None m1;
          (edge_hexes, m3) = surround_map None m2;
          m4 = m3\<lparr>terrain := hexes m3\<rparr>
      in surround_map (Some (default_params\<lparr>p_port := True\<rparr>)) m4)"

definition build :: "catan \<Rightarrow> catan" where
  "build m0 =
     (let (ps, m5) = build_tiles m0;
          ps1 = sort_ports (heap m5) ps;
          ps2 = every_other ps1
      in m5\<lparr>ports := ps2, hexes := terrain m5 @ ps2\<rparr>)"

subsection \<open>arrange\<close>

text \<open>
  The \<open>for\<close> loop with \<open>break\<close> at the head of \<open>arrange_columns\<close> and \<open>arrange_spiral\<close>:
  the first neighbour, in the order of the given angles, that exists and is not a port.
\<close>

fun first_open :: "hex list \<Rightarrow> nat \<Rightarrow> int list \<Rightarrow> nat option" where
  "first_open h tile [] = None"
| "first_open h tile (angle # as) =
     (case nbr (h ! tile) angle of
        None \<Rightarrow> first_open h tile as
      | Some other \<Rightarrow> if \<not> port (h ! other) then Some other else first_open h tile as)"

text \<open>The enclosing \<open>while True\<close>: it need not terminate, so \<open>None\<close> is "does not return".\<close>

partial_function (option) extreme :: "hex list \<Rightarrow> int list \<Rightarrow> nat \<Rightarrow> nat option" where
  "extreme h as tile =
     (case first_open h tile as of None \<Rightarrow> Some tile | Some other \<Rightarrow> extreme h as other)"

declare extreme.simps [code]

partial_function (option) toppers_loop ::
  "hex list \<Rightarrow> nat list \<Rightarrow> nat list \<Rightarrow> nat list \<Rightarrow> nat list option" where
  "toppers_loop h right left toppers =
     (let (right1, toppers1) =
            (case nbr (h ! last right) 120 of
               None \<Rightarrow> (right, toppers)
             | Some r \<Rightarrow> (right @ [r], toppers @ [r]));
          (left1, toppers2) =
            (case nbr (h ! last left) 240 of
               None \<Rightarrow> (left, toppers1)
             | Some l \<Rightarrow> (left @ [l], toppers1 @ [l]))
      in if nbr (h ! last right) 120 = None \<and> nbr (h ! last left) 240 = None
         then Some toppers2
         else toppers_loop h right1 left1 toppers2)"

declare toppers_loop.simps [code]

partial_function (option) descend :: "hex list \<Rightarrow> nat list \<Rightarrow> nat list option" where
  "descend h cols =
     (case nbr (h ! last cols) 180 of
        None \<Rightarrow> Some cols
      | Some lower \<Rightarrow> if port (h ! lower) then Some cols else descend h (cols @ [lower]))"

declare descend.simps [code]

fun columns_loop :: "hex list \<Rightarrow> nat list \<Rightarrow> nat list \<Rightarrow> nat list option" where
  "columns_loop h [] cols = Some cols"
| "columns_loop h (topper # toppers) cols =
     (case descend h (cols @ [topper]) of
        None \<Rightarrow> None
      | Some cols1 \<Rightarrow> columns_loop h toppers cols1)"

text \<open>
  \<open>arrange_columns\<close>. \<open>self.hexes[0]\<close> raises \<open>IndexError\<close> on an empty map; when the top
  tile has no neighbour at 120 or at 240, \<open>right[-1]\<close> or \<open>left[-1]\<close> is \<open>None\<close> and
  reading its \<open>neighbors\<close> raises \<open>AttributeError\<close>.
\<close>

definition arrange_columns :: "catan \<Rightarrow> (error + catan) option" where
  "arrange_columns m =
     (case hexes m of
        [] \<Rightarrow> Some (Inl IndexError)
      | first # _ \<Rightarrow>
          (case extreme (heap m) [0, 60, 300] first of
             None \<Rightarrow> None
           | Some topmost \<Rightarrow>
               (case (nbr (heap m ! topmost) 240, nbr (heap m ! topmost) 120) of
                  (Some l, Some r) \<Rightarrow>
                    (case toppers_loop (heap m) [r] [l] ([topmost] @ [r] @ [l]) of
                       None \<Rightarrow> None
                     | Some toppers \<Rightarrow>
                         (case columns_loop (heap m) toppers [] of
                            None \<Rightarrow> None
                          | Some cols \<Rightarrow> Some (Inr (m\<lparr>columns := cols\<rparr>))))
                | _ \<Rightarrow> Some (Inl AttributeError))))"

text \<open>The test that turns the spiral: the target is absent, already visited, or a port.\<close>

definition blocked :: "hex list \<Rightarrow> nat list \<Rightarrow> nat option \<Rightarrow> bool" where
  "blocked h sp target =
     (case target of None \<Rightarrow> True | Some t \<Rightarrow> t \<in> set sp \<or> port (h ! t))"

text \<open>
  The inner \<open>while True\<close> of \<open>arrange_spiral\<close>; it returns the angle at which it stopped
  and the tile found there, or the \<open>ValueError\<close> of a dead end.
\<close>

partial_function (option) spiral_turn ::
  "hex list \<Rightarrow> nat list \<Rightarrow> int \<Rightarrow> int \<Rightarrow> (error + int \<times> nat) option" where
  "spiral_turn h sp angle start_angle =
     (case nbr (h ! last sp) angle of
        None \<Rightarrow>
          (if (angle - 60) mod 360 = start_angle then Some (Inl ValueError)
           else spiral_turn h sp ((angle - 60) mod 360) start_angle)
      | Some target \<Rightarrow>
          (if target \<in> set sp \<or> port (h ! target) then
             (if (angle - 60) mod 360 = start_angle then Some (Inl ValueError)
              else spiral_turn h sp ((angle - 60) mod 360) start_angle)
           else Some (Inr (angle, target))))"

declare spiral_turn.simps [code]

text \<open>The outer \<open>while len(self.spiral) < len(self.terrain)\<close>.\<close>

partial_function (option) spiral_loop ::
  "hex list \<Rightarrow> nat \<Rightarrow> nat list \<Rightarrow> int \<Rightarrow> (error + nat list) option" where
  "spiral_loop h n sp angle =
     (if length sp < n then
        (case spiral_turn h sp angle angle of
           None \<Rightarrow> None
         | Some (Inl e) \<Rightarrow> Some (Inl e)
         | Some (Inr (angle1, target)) \<Rightarrow> spiral_loop h n (sp @ [target]) angle1)
      else Some (Inr sp))"

declare spiral_loop.simps [code]

definition arrange_spiral :: "catan \<Rightarrow> (error + catan) option" where
  "arrange_spiral m =
     (case hexes m of
        [] \<Rightarrow> Some (Inl IndexError)
      | first # _ \<Rightarrow>
          (case extreme (heap m) [180, 120, 240] first of
             None \<Rightarrow> None
           | Some bottom \<Rightarrow>
               (case spiral_loop (heap m) (length (terrain m)) [bottom] 60 of
                  None \<Rightarrow> None
                | Some (Inl e) \<Rightarrow> Some (Inl e)
                | Some (Inr sp) \<Rightarrow> Some (Inr (m\<lparr>spiral := sp\<rparr>)))))"

text \<open>The body of the inner loop of \<open>arrange_intersections\<close>: the group at one corner.\<close>

definition inter_at :: "hex list \<Rightarrow> nat \<Rightarrow> int \<Rightarrow> nat list" where
  "inter_at h tile turn =
     (let inter = [tile];
          inter1 = (case nbr (h ! tile) turn of
                      None \<Rightarrow> inter
                    | Some possible \<Rightarrow> if \<not> port (h ! possible) then inter @ [possible] else inter);
          inter2 = (case nbr (h ! tile) ((60 + turn) mod 360) of
                      None \<Rightarrow> inter1
                    | Some possible \<Rightarrow> if \<not> port (h ! possible) then inter1 @ [possible] else inter1)
      in sort_key (\<lambda>tile. tile) inter2)"

definition arrange_intersections :: "catan \<Rightarrow> catan" where
  "arrange_intersections m =
     m\<lparr>intersections :=
         fold (\<lambda>tile s. fold (\<lambda>turn s. insert (inter_at (heap m) tile turn) s)
                          [0, 60, 120, 180, 240, 300] s)
              (terrain m) {}\<rparr>"

definition arrange :: "catan \<Rightarrow> (error + catan) option" where
  "arrange m =
     (case arrange_columns m of
        None \<Rightarrow> None
      | Some (Inl e) \<Rightarrow> Some (Inl e)
      | Some (Inr m1) \<Rightarrow>
          (case arrange_spiral m1 of
             None \<Rightarrow> None
           | Some (Inl e) \<Rightarrow> Some (Inl e)
           | Some (Inr m2) \<Rightarrow> Some (Inr (arrange_intersections m2))))"

text \<open>
  \<open>CatanMap(use_frame)\<close>, that is \<open>CatanMap.__init__\<close> followed by \<open>HexMap.__init__\<close>,
  run when the tiles of \<open>h\<close> already exist.
\<close>

definition blank_map :: "bool \<Rightarrow> hex list \<Rightarrow> catan" where
  "blank_map frame h =
     \<lparr>heap = h, hexes = [], base_params = default_params,
      map_bounds = \<lparr>b_top = 0, b_left = 0, b_right = 0, b_bottom = 0\<rparr>,
      use_frame = frame, terrain = [], ports = [], columns = [], spiral = [],
      intersections = {}, tries = 0\<rparr>"

definition CatanMap :: "bool \<Rightarrow> hex list \<Rightarrow> (error + catan) option" where
  "CatanMap frame h = arrange (explore (build (blank_map frame h)))"


subsection \<open>layout\<close>

text \<open>
  The process-wide random source, as the sequence of raw draws still to come.
  \<open>random.shuffle\<close> is the standard library's loop
  \<^verbatim>\<open>for i in reversed(range(1, len(x))): j = randbelow(i + 1); x[i], x[j] = x[j], x[i]\<close>.
\<close>

type_synonym rng = "nat \<Rightarrow> nat"

definition randbelow :: "nat \<Rightarrow> rng \<Rightarrow> nat \<times> rng" where
  "randbelow n r = (r 0 mod n, \<lambda>k. r (Suc k))"

fun shuffle_loop :: "nat \<Rightarrow> 'a list \<Rightarrow> rng \<Rightarrow> 'a list \<times> rng" where
  "shuffle_loop 0 x r = (x, r)"
| "shuffle_loop (Suc i) x r =
     (let (j, r1) = randbelow (Suc i + 1) r
      in shuffle_loop i (x[Suc i := x ! j, j := x ! Suc i]) r1)"

definition shuffle :: "'a list \<Rightarrow> rng \<Rightarrow> 'a list \<times> rng" where
  "shuffle x r = shuffle_loop (length x - 1) x r"

definition set_terr :: "nat \<times> string \<Rightarrow> hex list \<Rightarrow> hex list" where
  "set_terr = (\<lambda>(tile, t) h. h[tile := (h ! tile)\<lparr>terr := t\<rparr>])"


text \<open>
  The loop of \<open>set_numbers\<close> over the two iterators. Running out of numbers raises
  \<open>StopIteration\<close>, which ends the loop; assigning the \<open>''\<close> that closes \<open>begin_num\<close>
  raises \<open>TypeError\<close> in the setter of \<open>num\<close>, which nothing catches: the result is then
  the exception together with the arena as the setter left it.
\<close>

fun numbers_loop :: "nat list \<Rightarrow> pynum list \<Rightarrow> hex list \<Rightarrow> error \<times> hex list + hex list" where
  "numbers_loop [] numbers h = Inr h"
| "numbers_loop (tile # tiles) numbers h =
     (if terr (h ! tile) \<noteq> ''DSRT'' then
        (case numbers of
           [] \<Rightarrow> Inr h
         | val # rest \<Rightarrow>
             (case fst (set_num val (h ! tile)) of
                None \<Rightarrow> numbers_loop tiles rest (h[tile := snd (set_num val (h ! tile))])
              | Some e \<Rightarrow> Inl (e, h[tile := snd (set_num val (h ! tile))])))
      else numbers_loop tiles numbers (h[tile := snd (set_num (PyInt 0) (h ! tile))]))"

definition set_numbers ::
  "string \<Rightarrow> rng \<times> catan \<Rightarrow> error \<times> (rng \<times> catan) + rng \<times> catan" where
  "set_numbers order = (\<lambda>(r, m).
     (let numbers = (if order = ''beginner'' then begin_num else standard_num);
          (numbers1, r1) = (if order = ''shuffle'' then shuffle numbers r else (numbers, r))
      in (case numbers_loop (spiral m) numbers1 (heap m) of
            Inl (e, h) \<Rightarrow> Inl (e, (r1, m\<lparr>heap := h\<rparr>))
          | Inr h \<Rightarrow> Inr (r1, m\<lparr>heap := h\<rparr>))))"


text \<open>
  What a validator factory may hand back: \<open>None\<close>, a function of no parameter (given
  with the result of its body), or a function of one parameter.
\<close>

datatype pyobj = PyNone | Func0 "error + bool" | Func1 "catan \<Rightarrow> error + bool"

text \<open>\<open>validator(self)\<close>: calling \<open>None\<close>, or a function of no parameter with one
  argument, raises \<open>TypeError\<close>.\<close>

fun call :: "pyobj \<Rightarrow> catan \<Rightarrow> error + bool" where
  "call PyNone m = Inl TypeError"
| "call (Func0 body) m = Inl TypeError"
| "call (Func1 f) m = f m"





section \<open>Validators\<close>

text \<open>The six neighbours of a tile that exist, in the order of \<open>range(0, 360, 60)\<close>.\<close>

definition adjacent :: "hex list \<Rightarrow> nat \<Rightarrow> nat list" where
  "adjacent h tile = List.map_filter (\<lambda>angle. nbr (h ! tile) angle) [0, 60, 120, 180, 240, 300]"

text \<open>\<open>good_rock\<close> defines \<open>gr_criteria\<close> and returns nothing.\<close>

definition gr_criteria :: "int \<Rightarrow> catan \<Rightarrow> error + bool" where
  "gr_criteria n catan =
     Inr (n \<le> fold (\<lambda>tile max_pip.
                      if terr (heap catan ! tile) = ''ROCK''
                      then max max_pip (pips (heap catan ! tile)) else max_pip)
                 (terrain catan) 0)"

definition good_rock :: "int \<Rightarrow> error + pyobj" where
  "good_rock n = Inr PyNone"

definition mp_criteria :: "int \<Rightarrow> catan \<Rightarrow> error + bool" where
  "mp_criteria n catan =
     Inr (\<forall>settle \<in> intersections catan.
            \<not> n < sum_list (map (\<lambda>tile. pips (heap catan ! tile)) settle))"

definition max_pip :: "int \<Rightarrow> error + pyobj" where
  "max_pip n = Inr (Func1 (mp_criteria n))"

text \<open>
  The inner loop of \<open>mpp_criteria\<close> for one port: the sum of the numbers of the
  neighbours whose terrain is that of the port's resource. \<open>PORT_TO_TERR[port.terr]\<close> is
  looked up once for each neighbour that exists; adding a number that is a string raises
  \<open>TypeError\<close>.
\<close>

fun port_pips :: "hex list \<Rightarrow> string \<Rightarrow> nat list \<Rightarrow> int \<Rightarrow> error + int" where
  "port_pips h res [] acc = Inr acc"
| "port_pips h res (tile # tiles) acc =
     (case subscript PORT_TO_TERR res of
        Inl e \<Rightarrow> Inl e
      | Inr t \<Rightarrow>
          if terr (h ! tile) = t then
            (case num (h ! tile) of
               PyInt v \<Rightarrow> port_pips h res tiles (acc + v)
             | PyStr s \<Rightarrow> Inl TypeError)
          else port_pips h res tiles acc)"

fun mpp_loop :: "int \<Rightarrow> hex list \<Rightarrow> nat list \<Rightarrow> error + bool" where
  "mpp_loop n h [] = Inr True"
| "mpp_loop n h (p # ps) =
     (if terr (h ! p) = ''ANY'' then mpp_loop n h ps
      else (case port_pips h (terr (h ! p)) (adjacent h p) 0 of
              Inl e \<Rightarrow> Inl e
            | Inr pip_sum \<Rightarrow> if n < pip_sum then Inr False else mpp_loop n h ps))"

definition mpp_criteria :: "int \<Rightarrow> catan \<Rightarrow> error + bool" where
  "mpp_criteria n catan = mpp_loop n (heap catan) (ports catan)"

definition max_port_pips :: "int \<Rightarrow> error + pyobj" where
  "max_port_pips n = Inr (Func1 (mpp_criteria n))"

definition n2B_criteria :: "catan \<Rightarrow> error + bool" where
  "n2B_criteria catan =
     Inr (\<forall>tile \<in> set (hexes catan). \<forall>adj \<in> set (adjacent (heap catan) tile).
            (num (heap catan ! tile), num (heap catan ! adj))
              \<notin> set [(PyInt 2, PyInt 2), (PyInt 2, PyInt 12), (PyInt 12, PyInt 2),
                     (PyInt 12, PyInt 12)])"

text \<open>\<open>no_2_12\<close> returns the name \<open>n68_criteria\<close>, which is bound neither in it nor in
  the module: \<open>NameError\<close>.\<close>

definition no_2_12 :: "error + pyobj" where
  "no_2_12 = Inl NameError"

definition n68_criteria :: "catan \<Rightarrow> error + bool" where
  "n68_criteria catan =
     Inr (\<forall>tile \<in> set (hexes catan). \<forall>adj \<in> set (adjacent (heap catan) tile).
            (num (heap catan ! tile), num (heap catan ! adj))
              \<notin> set [(PyInt 6, PyInt 6), (PyInt 6, PyInt 8), (PyInt 8, PyInt 6),
                     (PyInt 8, PyInt 8)])"

definition no_6_8 :: "error + pyobj" where
  "no_6_8 = Inr (Func1 n68_criteria)"

text \<open>\<open>no_double_6_8\<close> defines \<open>nd68_criteria\<close> and returns nothing.\<close>

fun nd68_loop :: "hex list \<Rightarrow> nat list \<Rightarrow> string set \<Rightarrow> bool" where
  "nd68_loop h [] seen = True"
| "nd68_loop h (tile # tiles) seen =
     (if pips (h ! tile) = 5 then
        (if terr (h ! tile) \<in> seen then False
         else nd68_loop h tiles (insert (terr (h ! tile)) seen))
      else nd68_loop h tiles seen)"

definition nd68_criteria :: "catan \<Rightarrow> error + bool" where
  "nd68_criteria catan = Inr (nd68_loop (heap catan) (terrain catan) {})"

definition no_double_6_8 :: "error + pyobj" where
  "no_double_6_8 = Inr PyNone"

definition nmp_criteria :: "catan \<Rightarrow> error + bool" where
  "nmp_criteria catan =
     Inr (\<forall>tile \<in> set (terrain catan). \<forall>adj \<in> set (adjacent (heap catan) tile).
            num (heap catan ! tile) \<noteq> num (heap catan ! adj))"

definition no_num_pairs :: "error + pyobj" where
  "no_num_pairs = Inr (Func1 nmp_criteria)"

definition nrp_criteria :: "catan \<Rightarrow> error + bool" where
  "nrp_criteria catan =
     Inr (\<forall>tile \<in> set (hexes catan). \<forall>adj \<in> set (adjacent (heap catan) tile).
            terr (heap catan ! tile) \<noteq> terr (heap catan ! adj))"

definition no_terr_pairs :: "error + pyobj" where
  "no_terr_pairs = Inr (Func1 nrp_criteria)"

text \<open>
  \<open>nrt_criteria\<close> is defined with no parameter and reads the name \<open>catan\<close>, which is
  bound nowhere: called with no argument its body raises \<open>NameError\<close>.
\<close>

definition no_terr_tri :: "error + pyobj" where
  "no_terr_tri = Inr (Func0 (Inl NameError))"

definition reg_criteria :: "string list \<Rightarrow> catan \<Rightarrow> error + bool" where
  "reg_criteria ignore catan =
     Inr (\<forall>tile \<in> set (hexes catan).
            terr (heap catan ! tile) \<in> set ignore \<or>
            (\<exists>adj \<in> set (adjacent (heap catan) tile).
               terr (heap catan ! tile) = terr (heap catan ! adj)))"

definition regions :: "string list \<Rightarrow> error + pyobj" where
  "regions ignore = Inr (Func1 (reg_criteria ignore))"

section \<open>The standard board, computed\<close>

text \<open>
  The value of \<open>CatanMap()\<close> in a fresh process (no tile created before), computed once
  from the definitions above and named, so that the statements below can refer to it.
  \<open>mk_tile x y ns p\<close> is a tile as \<open>build\<close> leaves it: no terrain, no number.
\<close>

definition mk_tile :: "int \<Rightarrow> real \<Rightarrow> nat option list \<Rightarrow> bool \<Rightarrow> hex" where
  "mk_tile x y ns p =
     \<lparr>hex_x = x, hex_y = y, neighbors = zip angles ns, terr = ''NONE'', num = PyInt 0,
      pips = - 1,
      port = p\<rparr>"

definition board_heap :: "hex list" where
  "board_heap =
    [mk_tile 0 0 [Some 1, Some 2, Some 3, Some 4, Some 5, Some 6] False,
     mk_tile 0 (-1) [Some 7, Some 8, Some 2, Some 0, Some 6, Some 9] False,
     mk_tile 1 (-(1 / 2)) [Some 8, Some 10, Some 11, Some 3, Some 0, Some 1] False,
     mk_tile 1 (1 / 2) [Some 2, Some 11, Some 12, Some 13, Some 4, Some 0] False,
     mk_tile 0 1 [Some 0, Some 3, Some 13, Some 14, Some 15, Some 5] False,
     mk_tile (-1) (1 / 2) [Some 6, Some 0, Some 4, Some 15, Some 16, Some 17] False,
     mk_tile (-1) (-(1 / 2)) [Some 9, Some 1, Some 0, Some 5, Some 17, Some 18] False,
     mk_tile 0 (-2) [Some 19, Some 20, Some 8, Some 1, Some 9, Some 21] False,
     mk_tile 1 (-(3 / 2)) [Some 20, Some 22, Some 10, Some 2, Some 1, Some 7] False,
     mk_tile (-1) (-(3 / 2)) [Some 21, Some 7, Some 1, Some 6, Some 18, Some 23] False,
     mk_tile 2 (-1) [Some 22, Some 24, Some 25, Some 11, Some 2, Some 8] False,
     mk_tile 2 0 [Some 10, Some 25, Some 26, Some 12, Some 3, Some 2] False,
     mk_tile 2 1 [Some 11, Some 26, Some 27, Some 28, Some 13, Some 3] False,
     mk_tile 1 (3 / 2) [Some 3, Some 12, Some 28, Some 29, Some 14, Some 4] False,
     mk_tile 0 2 [Some 4, Some 13, Some 29, Some 30, Some 31, Some 15] False,
     mk_tile (-1) (3 / 2) [Some 5, Some 4, Some 14, Some 31, Some 32, Some 16] False,
     mk_tile (-2) 1 [Some 17, Some 5, Some 15, Some 32, Some 33, Some 34] False,
     mk_tile (-2) 0 [Some 18, Some 6, Some 5, Some 16, Some 34, Some 35] False,
     mk_tile (-2) (-1) [Some 23, Some 9, Some 6, Some 17, Some 35, Some 36] False,
     mk_tile 0 (-3) [None, None, Some 20, Some 7, Some 21, None] True,
     mk_tile 1 (-(5 / 2)) [None, None, Some 22, Some 8, Some 7, Some 19] True,
     mk_tile (-1) (-(5 / 2)) [None, Some 19, Some 7, Some 9, Some 23, None] True,
     mk_tile 2 (-2) [None, None, Some 24, Some 10, Some 8, Some 20] True,
     mk_tile (-2) (-2) [None, Some 21, Some 9, Some 18, Some 36, None] True,
     mk_tile 3 (-(3 / 2)) [None, None, None, Some 25, Some 10, Some 22] True,
     mk_tile 3 (-(1 / 2)) [Some 24, None, None, Some 26, Some 11, Some 10] True,
     mk_tile 3 (1 / 2) [Some 25, None, None, Some 27, Some 12, Some 11] True,
     mk_tile 3 (3 / 2) [Some 26, None, None, None, Some 28, Some 12] True,
     mk_tile 2 2 [Some 12, Some 27, None, None, Some 29, Some 13] True,
     mk_tile 1 (5 / 2) [Some 13, Some 28, None, None, Some 30, Some 14] True,
     mk_tile 0 3 [Some 14, Some 29, None, None, None, Some 31] True,
     mk_tile (-1) (5 / 2) [Some 15, Some 14, Some 30, None, None, Some 32] True,
     mk_tile (-2) 2 [Some 16, Some 15, Some 31, None, None, Some 33] True,
     mk_tile (-3) (3 / 2) [Some 34, Some 16, Some 32, None, None, None] True,
     mk_tile (-3) (1 / 2) [Some 35, Some 17, Some 16, Some 33, None, None] True,
     mk_tile (-3) (-(1 / 2)) [Some 36, Some 18, Some 17, Some 34, None, None] True,
     mk_tile (-3) (-(3 / 2)) [None, Some 23, Some 18, Some 35, None, None] True]"

definition board_tiles :: catan where
  "board_tiles =
     \<lparr>heap = board_heap, hexes = [0..<37], base_params = default_params,
      map_bounds = \<lparr>b_top = 0, b_left = 0, b_right = 0, b_bottom = 0\<rparr>,
      use_frame = False, terrain = [0..<19], ports = [], columns = [], spiral = [],
      intersections = {}, tries = 0\<rparr>"

definition board_ports :: "nat list" where
  "board_ports = [20, 24, 26, 28, 30, 32, 34, 36, 21]"

definition standard_board :: catan where
  "standard_board =
     \<lparr>heap = board_heap, hexes = [0..<19] @ board_ports, base_params = default_params,
      map_bounds = \<lparr>b_top = - (5 / 2), b_left = - 3, b_right = 3, b_bottom = 3\<rparr>,
      use_frame = False, terrain = [0..<19], ports = board_ports,
      columns = [7, 1, 0, 4, 14, 8, 2, 3, 13, 9, 6, 5, 15, 10, 11, 12, 18, 17, 16, 25, 35],
      spiral = [14, 13, 12, 11, 10, 8, 7, 9, 18, 17, 16, 15, 4, 3, 2, 1, 6, 5, 0],
      intersections =
        {[18], [17, 18], [17], [16, 17], [16], [15, 16], [15], [14, 15],
         [14], [13, 14], [13], [12, 13], [12], [11, 12], [11], [10, 11],
         [10], [9], [9, 18], [8, 10], [8], [7, 9], [7, 8], [7], [6, 9, 18],
         [6, 17, 18], [5, 6, 17], [5, 16, 17], [5, 15, 16], [4, 5, 15],
         [4, 14, 15], [4, 13, 14], [3, 4, 13], [3, 12, 13], [3, 11, 12],
         [2, 3, 11], [2, 10, 11], [2, 8, 10], [1, 7, 9], [1, 6, 9],
         [1, 2, 8], [1, 7, 8], [0, 1, 6], [0, 5, 6], [0, 4, 5], [0, 3, 4],
         [0, 2, 3], [0, 1, 2]},
      tries = 0\<rparr>"

definition clockwise :: "nat list" where
  "clockwise = [19, 20, 22, 24, 25, 26, 27, 28, 29, 30, 31, 32, 33, 34, 35, 36, 23, 21]"

section \<open>Predicates used in the statements\<close>

text \<open>Making a validator and applying it to a map, as \<open>layout\<close> does with each of them.\<close>

definition validate_with :: "error + pyobj \<Rightarrow> catan \<Rightarrow> error + bool" where
  "validate_with made m = (case made of Inl e \<Rightarrow> Inl e | Inr validator \<Rightarrow> call validator m)"

text \<open>What holds of a group on a given arena.\<close>

definition group_ok :: "hex list \<Rightarrow> nat list \<Rightarrow> nat list \<Rightarrow> bool" where
  "group_ok h terrain_tiles g \<longleftrightarrow>
     sorted_wrt (<) g \<and> length g \<in> {1, 2, 3} \<and>
     list_all (\<lambda>t. t \<in> set terrain_tiles \<and> \<not> port (h ! t)) g \<and>
     list_all (\<lambda>a. list_all (\<lambda>b. a = b \<or> b \<in> set (adjacent h a)) g) g"

text \<open>What the inner loop of \<open>arrange_spiral\<close> returns: the error of a dead end, or an
  angle and the open tile there.\<close>

definition turn_result :: "hex list \<Rightarrow> nat list \<Rightarrow> (error + int \<times> nat) \<Rightarrow> bool" where
  "turn_result h sp r \<longleftrightarrow>
     (case r of
        Inl e \<Rightarrow> e = ValueError
      | Inr (a, t) \<Rightarrow> a \<in> set angles \<and> nbr (h ! last sp) a = Some t \<and> t \<notin> set sp \<and>
                     \<not> port (h ! t))"

text \<open>What \<open>spiral_loop\<close> returns when it returns a spiral.\<close>

definition grown :: "hex list \<Rightarrow> nat \<Rightarrow> nat list \<Rightarrow> nat list \<Rightarrow> bool" where
  "grown h n sp sp' \<longleftrightarrow>
     length sp' = max n (length sp) \<and>
     (\<exists>ext. sp' = sp @ ext \<and> (distinct sp \<longrightarrow> distinct sp') \<and>
        (\<forall>t \<in> set ext. \<not> port (h ! t)))"

text \<open>The coordinates of a tile, and the coordinates one step from it at an angle.\<close>

definition xy :: "hex \<Rightarrow> int \<times> real" where
  "xy t = (hex_x t, hex_y t)"

definition shifted :: "hex \<Rightarrow> int \<Rightarrow> int \<times> real" where
  "shifted t a = (hex_x t + fst (angle_xy a), hex_y t + snd (angle_xy a))"



definition mutual :: "hex list \<Rightarrow> bool" where
  "mutual h \<longleftrightarrow>
     (\<forall>t < length h. \<forall>a \<in> set angles. \<forall>u.
        nbr (h ! t) a = Some u \<longrightarrow> nbr (h ! u) ((a + 180) mod 360) = Some t)"

text \<open>What one operation may do to the arena: it keeps every tile and its coordinates.\<close>

definition keeps :: "hex list \<Rightarrow> hex list \<Rightarrow> bool" where
  "keeps h h' \<longleftrightarrow> length h \<le> length h' \<and> (\<forall>t < length h. xy (h' ! t) = xy (h ! t))"



text \<open>Two arenas with the same tiles, links, coordinates and port flags.\<close>

definition same_tiles :: "hex list \<Rightarrow> hex list \<Rightarrow> bool" where
  "same_tiles h h' \<longleftrightarrow>
     length h' = length h \<and>
     (\<forall>u. neighbors (h' ! u) = neighbors (h ! u) \<and> xy (h' ! u) = xy (h ! u) \<and>
          port (h' ! u) = port (h ! u))"

text \<open>Two maps that differ in the terrain, numbers and pips of their tiles, and in \<open>tries\<close>.\<close>

definition relaid :: "catan \<Rightarrow> catan \<Rightarrow> bool" where
  "relaid m m' \<longleftrightarrow>
     same_tiles (heap m) (heap m') \<and> hexes m' = hexes m \<and> terrain m' = terrain m \<and>
     ports m' = ports m \<and> columns m' = columns m \<and> spiral m' = spiral m \<and>
     intersections m' = intersections m"





section \<open>Evaluating the construction\<close>

lemma build_tiles_value: "build_tiles (blank_map False []) = ([19..<37], board_tiles)"
  by code_simp

lemma filter_single:
  "distinct ys \<Longrightarrow> k \<in> set ys \<Longrightarrow> (\<And>a. a \<in> set ys \<Longrightarrow> P a \<longleftrightarrow> a = k) \<Longrightarrow> filter P ys = [k]"
proof (induction ys)
  case Nil
  then show ?case by simp
next
  case (Cons a ys)
  show ?case
  proof (cases "a = k")
    case True
    with Cons.prems have "filter P ys = []"
      by (auto simp: filter_empty_conv)
    with True Cons.prems(3) [of a] show ?thesis by simp
  next
    case False
    with Cons show ?thesis by auto
  qed
qed

text \<open>A list in strictly ascending key order is the result of sorting any of its permutations.\<close>

lemma sort_key_strict:
  assumes "sorted_wrt (\<lambda>a b. f a < f b) ys" and "mset ys = mset xs"
  shows "sort_key f xs = ys"
proof (rule properties_for_sort_key)
  show "mset ys = mset xs" by fact
  show "sorted (map f ys)"
    using assms(1) by (simp add: sorted_wrt_map sorted_wrt_mono_rel [of ys "\<lambda>a b. f a < f b"])
  fix k assume k: "k \<in> set ys"
  have d: "distinct ys"
    using assms(1) by (induction ys) auto
  have inj: "f k = f a \<longleftrightarrow> a = k" if "a \<in> set ys" for a
  proof
    assume eq: "f k = f a"
    from k obtain i where i: "i < length ys" "ys ! i = k" by (auto simp: in_set_conv_nth)
    from that obtain j where j: "j < length ys" "ys ! j = a" by (auto simp: in_set_conv_nth)
    have "i < j \<Longrightarrow> f (ys ! i) < f (ys ! j)" "j < i \<Longrightarrow> f (ys ! j) < f (ys ! i)"
      using assms(1) i(1) j(1) by (simp_all add: sorted_wrt_iff_nth_less)
    with eq i(2) j(2) have "\<not> i < j" "\<not> j < i"
      by auto
    then have "i = j" by simp
    with i j show "a = k" by simp
  qed simp
  have dx: "distinct xs"
    using assms(2) d mset_eq_imp_distinct_iff [of ys xs] by simp
  have sx: "set xs = set ys"
    using assms(2) mset_eq_setD [of xs ys] by simp
  have "filter (\<lambda>x. f k = f x) ys = [k]"
    using d k inj by (rule filter_single)
  moreover have "filter (\<lambda>x. f k = f x) xs = [k]"
    using dx k inj unfolding sx [symmetric] by (rule filter_single)
  ultimately show "filter (\<lambda>x. f k = f x) ys = filter (\<lambda>x. f k = f x) xs" by simp
qed

lemma candidate_xy:
  "map (\<lambda>t. (hex_x (board_heap ! t), hex_y (board_heap ! t))) clockwise =
     [(0, -3), (1, -(5/2)), (2, -2), (3, -(3/2)), (3, -(1/2)), (3, 1/2), (3, 3/2), (2, 2),
      (1, 5/2), (0, 3), (-1, 5/2), (-2, 2), (-3, 3/2), (-3, 1/2), (-3, -(1/2)), (-3, -(3/2)),
      (-2, -2), (-1, -(5/2))]"
  by code_simp

lemma arctan_chain:
  "0 < arctan (2 / 5)" "arctan (2 / 5) < arctan 1" "arctan 1 < arctan 2"
  "arctan 2 < arctan 6" "arctan 6 < pi / 2"
  using arctan_ubound [of 6] arctan_less_iff [of 0 "2 / 5"]
  by (simp_all add: arctan_less_iff)

lemma candidate_keys_descend:
  "sorted_wrt (<) (map (\<lambda>(x, y). - atan2 (real_of_int x) y)
     [(0, -3), (1, -(5/2)), (2, -2), (3, -(3/2)), (3, -(1/2)), (3, 1/2), (3, 3/2), (2, 2),
      (1, 5/2), (0, 3), (-1, 5/2), (-2, 2), (-3, 3/2), (-3, 1/2), (-3, -(1/2)), (-3, -(3/2)),
      (-2, -2), (-1, -(5/2))])"
  apply (simp add: sorted_wrt2 [OF transp_on_less] atan2_def arctan_minus)
  apply (intro conjI)
  using arctan_chain apply linarith+
  done

lemma clockwise_descends:
  "sorted_wrt (\<lambda>a b. - atan2 (real_of_int (hex_x (board_heap ! a))) (hex_y (board_heap ! a))
       < - atan2 (real_of_int (hex_x (board_heap ! b))) (hex_y (board_heap ! b))) clockwise"
proof -
  have "map (\<lambda>tile. - atan2 (real_of_int (hex_x (board_heap ! tile))) (hex_y (board_heap ! tile)))
          clockwise =
        map (\<lambda>(x, y). - atan2 (real_of_int x) y)
          (map (\<lambda>t. (hex_x (board_heap ! t), hex_y (board_heap ! t))) clockwise)"
    by (simp only: map_map comp_def prod.case)
  with candidate_keys_descend
  have "sorted_wrt (<)
     (map (\<lambda>tile. - atan2 (real_of_int (hex_x (board_heap ! tile))) (hex_y (board_heap ! tile)))
        clockwise)"
    by (simp only: candidate_xy)
  then show ?thesis
    unfolding sorted_wrt_map .
qed

lemma sort_ports_value: "sort_ports board_heap [19..<37] = clockwise"
proof -
  have "mset clockwise = mset [19..<37]"
    by (simp add: clockwise_def upt_rec)
  with clockwise_descends show ?thesis
    unfolding sort_ports_def by (rule sort_key_strict)
qed

lemma build_value:
  "build (blank_map False []) =
     board_tiles\<lparr>ports := board_ports, hexes := [0..<19] @ board_ports\<rparr>"
  apply (simp only: build_def build_tiles_value Let_def prod.case)
  apply (simp only: board_tiles_def hexmap.simps catan.simps sort_ports_value)
  apply (simp add: clockwise_def board_ports_def)
  done

lemma CatanMap_value: "CatanMap False [] = Some (Inr standard_board)"
  unfolding CatanMap_def build_value by code_simp

section \<open>What the arrangements leave alone\<close>

lemma arrange_columns_frame:
  "arrange_columns m = Some (Inr m1) \<Longrightarrow> heap m1 = heap m \<and> terrain m1 = terrain m \<and> hexes m1 = hexes m \<and> ports m1 = ports m"
  by (auto simp: arrange_columns_def split: list.splits option.splits)

lemma arrange_spiral_frame:
  "arrange_spiral m = Some (Inr m1) \<Longrightarrow> heap m1 = heap m \<and> terrain m1 = terrain m \<and> hexes m1 = hexes m \<and> ports m1 = ports m \<and> columns m1 = columns m"
  by (auto simp: arrange_spiral_def split: list.splits option.splits sum.splits)

section \<open>The fixed tables\<close>

text \<open>
  C7. The two tables are meant to be inverse to each other, but \<open>PORT_TO_TERR\<close> sends
  \<open>BRICK\<close> to \<open>HILL\<close> while the terrain (in \<open>TERR_TO_PORT\<close> and in
  \<open>begin_terr\<close>) is spelled \<open>HILLS\<close>: the round trip from \<open>BRICK\<close> raises
  \<open>KeyError\<close>, and the round trip from \<open>HILLS\<close> ends at \<open>HILL\<close>.
\<close>

theorem port_terr_tables_mismatch:
  "subscript PORT_TO_TERR ''BRICK'' = Inr ''HILL'' \<and>
   subscript TERR_TO_PORT ''HILL'' = Inl KeyError \<and>
   subscript TERR_TO_PORT ''HILLS'' = Inr ''BRICK'' \<and>
   subscript PORT_TO_TERR ''BRICK'' \<noteq> Inr ''HILLS''"
  by (simp add: subscript_def PORT_TO_TERR_def TERR_TO_PORT_def)

section \<open>The validator factories\<close>

text \<open>
  C8. Four of the ten factories do not give a usable validator, whatever the map:
  \<open>good_rock\<close> and \<open>no_double_6_8\<close> return \<open>None\<close>, \<open>no_2_12\<close> raises
  \<open>NameError\<close> when it is called, and the function \<open>no_terr_tri\<close> returns takes no
  argument; applying what they return to a map raises \<open>TypeError\<close>.
\<close>

theorem validator_factories_fail:
  "validate_with (good_rock n) m = Inl TypeError \<and>
   validate_with no_2_12 m = Inl NameError \<and>
   validate_with no_double_6_8 m = Inl TypeError \<and>
   validate_with no_terr_tri m = Inl TypeError"
  by (simp add: validate_with_def good_rock_def no_2_12_def no_double_6_8_def no_terr_tri_def)

section \<open>Numbers and pips\<close>

lemma beginner_numbers_raise:
  "\<exists>h. numbers_loop (spiral standard_board) begin_num (heap standard_board) = Inl (TypeError, h) \<and>
       num (h ! 0) = PyStr '''' \<and> pips (h ! 0) = - 1"
proof -
  have "(case numbers_loop (spiral standard_board) begin_num (heap standard_board) of
           Inl (e, h) \<Rightarrow> e = TypeError \<and> num (h ! 0) = PyStr '''' \<and> pips (h ! 0) = - 1
         | Inr h \<Rightarrow> False)"
    by code_simp
  then show ?thesis
    by (auto split: sum.splits)
qed

text \<open>
  C4. For an int \<open>n\<close> the setter stores \<open>n\<close> and the pips \<open>6 - |7 - n|\<close>, and so does the
  constructor. But \<open>begin_num\<close> ends with the string \<open>''\<close>, and the setter stores the value
  before it computes the pips: on a string it raises \<open>TypeError\<close> with the string stored
  and the old pips kept. On the standard board, \<open>set_numbers('beginner')\<close> before any
  terrain is laid out (no desert) reaches that string at the last tile of the spiral,
  tile 0, and leaves it with number \<open>''\<close> and pips -1.
\<close>

theorem num_setter_string_keeps_pips:
  "fst (set_num (PyInt n) t) = None \<and> num (snd (set_num (PyInt n) t)) = PyInt n \<and>
   pips (snd (set_num (PyInt n) t)) = 6 - \<bar>7 - n\<bar> \<and>
   num (new_hex p) = PyInt (p_num p) \<and> pips (new_hex p) = 6 - \<bar>7 - p_num p\<bar> \<and>
   fst (set_num (PyStr s) t) = Some TypeError \<and> num (snd (set_num (PyStr s) t)) = PyStr s \<and>
   pips (snd (set_num (PyStr s) t)) = pips t \<and>
   last begin_num = PyStr '''' \<and>
   CatanMap False [] = Some (Inr standard_board) \<and>
   (\<exists>m. set_numbers ''beginner'' (r, standard_board) = Inl (TypeError, (r, m)) \<and>
        num (heap m ! 0) = PyStr '''' \<and> pips (heap m ! 0) = - 1)"
proof -
  from beginner_numbers_raise obtain h where
    h: "numbers_loop (spiral standard_board) begin_num (heap standard_board) = Inl (TypeError, h)"
      "num (h ! 0) = PyStr ''''" "pips (h ! 0) = - 1"
    by blast
  have "set_numbers ''beginner'' (r, standard_board) = Inl (TypeError, (r, standard_board\<lparr>heap := h\<rparr>))"
    by (simp add: set_numbers_def h(1))
  with h(2,3) have
    "\<exists>m. set_numbers ''beginner'' (r, standard_board) = Inl (TypeError, (r, m)) \<and>
        num (heap m ! 0) = PyStr '''' \<and> pips (heap m ! 0) = - 1"
    by auto
  then show ?thesis
    using CatanMap_value by (simp add: set_num_def new_hex_def begin_num_def)
qed

section \<open>The discarded port candidates\<close>

lemma board_columns:
  "7 \<in> set (hexes standard_board) \<and>
   nbr (heap standard_board ! 7) 0 = Some 19 \<and>
   19 \<notin> set (hexes standard_board) \<and>
   port (heap standard_board ! 19) \<and> terr (heap standard_board ! 19) = ''NONE'' \<and>
   nbr (heap standard_board ! 19) 180 = Some 7 \<and>
   first_open (heap standard_board) 7 [0, 60, 300] = None \<and>
   inter_at (heap standard_board) 7 0 = [7] \<and>
   columns standard_board =
     [7, 1, 0, 4, 14, 8, 2, 3, 13, 9, 6, 5, 15, 10, 11, 12, 18, 17, 16, 25, 35] \<and>
   length (columns standard_board) = 21 \<and>
   nbr (heap standard_board ! 10) 120 = Some 25 \<and> nbr (heap standard_board ! 18) 240 = Some 35 \<and>
   port (heap standard_board ! 25) \<and> port (heap standard_board ! 35) \<and>
   terr (heap standard_board ! 25) = ''NONE'' \<and> terr (heap standard_board ! 35) = ''NONE'' \<and>
   25 \<notin> set (hexes standard_board) \<and> 35 \<notin> set (hexes standard_board)"
  by code_simp

text \<open>
  C10. On the standard board the terrain tile 7, which is in \<open>hexes\<close>, has at angle 0 the
  tile 19: a port candidate that \<open>build\<close> dropped from \<open>hexes\<close>, still flagged as a port,
  still without terrain, and still linked back to tile 7. The walk to the top tile and the
  intersections pass it over because of its port flag. The walk along the top tiles in
  \<open>arrange_columns\<close> tests no port flag: from tile 10 it takes the dropped candidate 25 and
  from tile 18 the dropped candidate 35, and \<open>columns\<close> ends with these two, 21 entries
  for 19 terrain tiles.
\<close>

theorem columns_take_dropped_candidates:
  "CatanMap False [] = Some (Inr standard_board) \<and>
   7 \<in> set (hexes standard_board) \<and>
   nbr (heap standard_board ! 7) 0 = Some 19 \<and>
   19 \<notin> set (hexes standard_board) \<and>
   port (heap standard_board ! 19) \<and> terr (heap standard_board ! 19) = ''NONE'' \<and>
   nbr (heap standard_board ! 19) 180 = Some 7 \<and>
   first_open (heap standard_board) 7 [0, 60, 300] = None \<and>
   inter_at (heap standard_board) 7 0 = [7] \<and>
   columns standard_board =
     [7, 1, 0, 4, 14, 8, 2, 3, 13, 9, 6, 5, 15, 10, 11, 12, 18, 17, 16, 25, 35] \<and>
   length (columns standard_board) = 21 \<and>
   nbr (heap standard_board ! 10) 120 = Some 25 \<and> nbr (heap standard_board ! 18) 240 = Some 35 \<and>
   port (heap standard_board ! 25) \<and> port (heap standard_board ! 35) \<and>
   terr (heap standard_board ! 25) = ''NONE'' \<and> terr (heap standard_board ! 35) = ''NONE'' \<and>
   25 \<notin> set (hexes standard_board) \<and> 35 \<notin> set (hexes standard_board)"
  using CatanMap_value board_columns by (rule conjI)

section \<open>Building the standard board\<close>

lemma ring1_value:
  "fst (start_hex None (blank_map False [])) = 0 \<and>
   fst (surround_hex 0 None (snd (start_hex None (blank_map False [])))) = [1, 2, 3, 4, 5, 6]"
  by code_simp

lemma ring2_value:
  "fst (surround_map None (snd (surround_hex 0 None (snd (start_hex None (blank_map False []))))))
     = [7..<19]"
  by code_simp

lemma noon: "atan2 (real_of_int (hex_x (board_heap ! 19))) (hex_y (board_heap ! 19)) = pi"
proof -
  have "board_heap ! 19 = mk_tile 0 (-3) [None, None, Some 20, Some 7, Some 21, None] True"
    by (simp add: board_heap_def)
  then show ?thesis
    by (simp add: mk_tile_def atan2_def)
qed

lemma ports_flagged: "list_all (\<lambda>p. port (board_heap ! p)) board_ports \<and> length board_ports = 9 \<and> board_ports = every_other clockwise"
  by code_simp

text \<open>
  C5. In a fresh process \<open>build\<close> creates the centre tile 0, then the six tiles 1 to 6
  around it, then the twelve tiles 7 to 18 around those, and these first 19 tiles are the
  terrain. One more surround creates the eighteen port candidates 19 to 36. Sorting them
  by descending \<open>atan2(x, y)\<close> puts them in the order \<open>clockwise\<close>: it starts with tile 19,
  straight above the centre (its key is \<open>pi\<close>, the largest), and the keys strictly
  decrease along it. Every other one is kept: the nine tiles \<open>board_ports\<close>, all flagged
  as ports, and \<open>hexes\<close> ends as the terrain followed by these nine.
\<close>

theorem build_standard_board:
  "fst (start_hex None (blank_map False [])) = 0 \<and>
   fst (surround_hex 0 None (snd (start_hex None (blank_map False [])))) = [1, 2, 3, 4, 5, 6] \<and>
   fst (surround_map None (snd (surround_hex 0 None (snd (start_hex None (blank_map False []))))))
     = [7..<19] \<and>
   build_tiles (blank_map False []) = ([19..<37], board_tiles) \<and>
   terrain board_tiles = [0..<19] \<and> heap board_tiles = board_heap \<and>
   sort_ports board_heap [19..<37] = clockwise \<and>
   hd clockwise = 19 \<and>
   atan2 (real_of_int (hex_x (board_heap ! 19))) (hex_y (board_heap ! 19)) = pi \<and>
   sorted_wrt (\<lambda>a b. atan2 (real_of_int (hex_x (board_heap ! b))) (hex_y (board_heap ! b))
                     < atan2 (real_of_int (hex_x (board_heap ! a))) (hex_y (board_heap ! a)))
     clockwise \<and>
   build (blank_map False []) =
     board_tiles\<lparr>ports := board_ports, hexes := [0..<19] @ board_ports\<rparr> \<and>
   board_ports = every_other clockwise \<and> length board_ports = 9 \<and>
   list_all (\<lambda>p. port (board_heap ! p)) board_ports"
proof -
  have t: "terrain board_tiles = [0..<19]" "heap board_tiles = board_heap"
    by (simp_all add: board_tiles_def)
  have c: "hd clockwise = 19"
    by (simp add: clockwise_def)
  have d: "sorted_wrt (\<lambda>a b. atan2 (real_of_int (hex_x (board_heap ! b))) (hex_y (board_heap ! b))
                     < atan2 (real_of_int (hex_x (board_heap ! a))) (hex_y (board_heap ! a)))
     clockwise"
    using clockwise_descends by (simp only: neg_less_iff_less)
  show ?thesis
    by (intro conjI ring1_value [THEN conjunct1] ring1_value [THEN conjunct2] ring2_value
        build_tiles_value t c d sort_ports_value noon build_value
        ports_flagged [THEN conjunct1] ports_flagged [THEN conjunct2, THEN conjunct1]
        ports_flagged [THEN conjunct2, THEN conjunct2])
qed

section \<open>Intersections\<close>

lemma board_groups: "\<forall>g \<in> intersections standard_board. group_ok (heap standard_board) (terrain standard_board) g"
  by code_simp

lemma board_group_sizes:
  "card {g \<in> intersections standard_board. length g = 1} = 12 \<and>
   card {g \<in> intersections standard_board. length g = 2} = 12 \<and>
   card {g \<in> intersections standard_board. length g = 3} = 24"
  by code_simp


lemma inter_at_shape:
  "sorted (inter_at h tile turn) \<and> length (inter_at h tile turn) \<in> {1, 2, 3} \<and>
   tile \<in> set (inter_at h tile turn) \<and>
   (\<forall>u \<in> set (inter_at h tile turn). u = tile \<or>
      (\<not> port (h ! u) \<and>
       (nbr (h ! tile) turn = Some u \<or> nbr (h ! tile) ((60 + turn) mod 360) = Some u)))"
  by (auto simp: inter_at_def Let_def split: option.splits)

lemma fold_insert_image:
  "fold (\<lambda>turn s. insert (f turn) s) as S = S \<union> f ` set as"
  by (induction as arbitrary: S) auto

lemma fold_groups:
  "fold (\<lambda>tile s. fold (\<lambda>turn s. insert (f tile turn) s) as s) ts S =
     S \<union> (\<Union>tile \<in> set ts. f tile ` set as)"
  by (induction ts arbitrary: S) (auto simp: fold_insert_image)

lemma intersections_arranged:
  "intersections (arrange_intersections m) =
     (\<Union>tile \<in> set (terrain m). (\<lambda>turn. inter_at (heap m) tile turn) ` set angles)"
  unfolding arrange_intersections_def angles_def
  by (subst fold_groups) simp

lemma arrange_result:
  assumes "arrange m = Some (Inr m')"
  shows "heap m' = heap m \<and> terrain m' = terrain m \<and>
         intersections m' = (\<Union>tile \<in> set (terrain m). (\<lambda>turn. inter_at (heap m) tile turn) ` set angles)"
proof -
  from assms obtain m1 m2 where 1: "arrange_columns m = Some (Inr m1)"
    and 2: "arrange_spiral m1 = Some (Inr m2)" and 3: "m' = arrange_intersections m2"
    by (auto simp: arrange_def split: option.splits sum.splits)
  have "heap m2 = heap m" "terrain m2 = terrain m"
    using arrange_columns_frame [OF 1] arrange_spiral_frame [OF 2] by simp_all
  then show ?thesis
    using intersections_arranged [of m2] by (simp add: 3 arrange_intersections_def)
qed

text \<open>
  C3, as the claim states it, fails: on the standard board the group \<open>[7]\<close> of size 1
  is an intersection (both neighbours of tile 7 at angles 300 and 0 are port candidates).
\<close>

theorem intersections_singleton_counterexample:
  "CatanMap False [] = Some (Inr standard_board) \<and> [7] \<in> intersections standard_board \<and>
   length [7::nat] \<noteq> 2 \<and> length [7::nat] \<noteq> 3"
  by (simp add: CatanMap_value standard_board_def)

text \<open>
  C3, amended. After construction every intersection is the group formed at one terrain
  tile and one angle: the tile and those of its neighbours at that angle and at the next
  that exist and are not ports, sorted by id, so of size 1, 2 or 3. On the standard board
  every group is strictly ascending, made of terrain tiles that are not ports and are
  adjacent to each other, and there are 12 groups of size 1, 12 of size 2 and 24 of size 3.
\<close>

theorem intersections_groups:
  "(\<forall>frame h m'. CatanMap frame h = Some (Inr m') \<longrightarrow>
      (\<forall>g \<in> intersections m'. \<exists>tile \<in> set (terrain m'). \<exists>turn \<in> set angles.
          g = inter_at (heap m') tile turn \<and> sorted g \<and> length g \<in> {1, 2, 3} \<and> tile \<in> set g \<and>
          (\<forall>u \<in> set g. u = tile \<or>
             (\<not> port (heap m' ! u) \<and>
              (nbr (heap m' ! tile) turn = Some u \<or>
               nbr (heap m' ! tile) ((60 + turn) mod 360) = Some u))))) \<and>
   CatanMap False [] = Some (Inr standard_board) \<and>
   (\<forall>g \<in> intersections standard_board.
      group_ok (heap standard_board) (terrain standard_board) g) \<and>
   card {g \<in> intersections standard_board. length g = 1} = 12 \<and>
   card {g \<in> intersections standard_board. length g = 2} = 12 \<and>
   card {g \<in> intersections standard_board. length g = 3} = 24"
proof -
  have "\<exists>tile \<in> set (terrain m'). \<exists>turn \<in> set angles.
          g = inter_at (heap m') tile turn \<and> sorted g \<and> length g \<in> {1, 2, 3} \<and> tile \<in> set g \<and>
          (\<forall>u \<in> set g. u = tile \<or>
             (\<not> port (heap m' ! u) \<and>
              (nbr (heap m' ! tile) turn = Some u \<or>
               nbr (heap m' ! tile) ((60 + turn) mod 360) = Some u)))"
    if "CatanMap frame h = Some (Inr m')" and "g \<in> intersections m'" for frame h m' g
  proof -
    from arrange_result [OF that(1) [unfolded CatanMap_def]] that(2) obtain tile turn
      where "tile \<in> set (terrain m')" "turn \<in> set angles" "g = inter_at (heap m') tile turn"
      by auto
    then show ?thesis
      using inter_at_shape [of "heap m'" tile turn] by blast
  qed
  then show ?thesis
    using CatanMap_value board_groups board_group_sizes by blast
qed

theorem intersections_groups_witness:
  "CatanMap False [] = Some (Inr standard_board) \<and>
   [0, 1, 2] \<in> intersections standard_board \<and>
   (\<exists>tile \<in> set (terrain standard_board). \<exists>turn \<in> set angles.
      [0, 1, 2] = inter_at (heap standard_board) tile turn) \<and>
   group_ok (heap standard_board) (terrain standard_board) [0, 1, 2]"
proof -
  note a = CatanMap_value
  have b: "[0, 1, 2] \<in> intersections standard_board"
    by (simp add: standard_board_def)
  from intersections_groups a b show ?thesis
    by blast
qed

section \<open>The spiral\<close>

lemma spiral_turn_blocked:
  "blocked h sp (nbr (h ! last sp) a) \<Longrightarrow>
   spiral_turn h sp a s =
     (if (a - 60) mod 360 = s then Some (Inl ValueError)
      else spiral_turn h sp ((a - 60) mod 360) s)"
  by (subst spiral_turn.simps) (auto simp: blocked_def split: option.splits)

lemma spiral_turn_open:
  "\<not> blocked h sp (nbr (h ! last sp) a) \<Longrightarrow>
   \<exists>t. nbr (h ! last sp) a = Some t \<and> t \<notin> set sp \<and> \<not> port (h ! t) \<and>
       spiral_turn h sp a s = Some (Inr (a, t))"
  by (subst spiral_turn.simps) (auto simp: blocked_def split: option.splits)

lemma spiral_turn_dead_end:
  assumes "angle \<in> set angles" and "\<forall>a \<in> set angles. blocked h sp (nbr (h ! last sp) a)"
  shows "spiral_turn h sp angle angle = Some (Inl ValueError)"
  using assms by (auto simp: angles_def spiral_turn_blocked)

lemma spiral_turn_step:
  assumes "a \<in> set angles"
    and "(a - 60) mod 360 = s \<or>
         (\<exists>r. spiral_turn h sp ((a - 60) mod 360) s = Some r \<and> turn_result h sp r)"
  shows "\<exists>r. spiral_turn h sp a s = Some r \<and> turn_result h sp r"
proof (cases "blocked h sp (nbr (h ! last sp) a)")
  case True
  with assms(2) show ?thesis
    by (auto simp: spiral_turn_blocked turn_result_def)
next
  case False
  from spiral_turn_open [OF this, of s] assms(1) show ?thesis
    by (auto simp: turn_result_def)
qed

lemma spiral_turn_progress:
  assumes "a \<in> set angles" and "s \<in> set angles" and "a \<noteq> s"
  shows "\<exists>r. spiral_turn h sp a s = Some r \<and> turn_result h sp r"
  using assms
proof (induction "nat ((a - s) mod 360)" arbitrary: a rule: less_induct)
  case less
  show ?case
  proof (cases "(a - 60) mod 360 = s")
    case True
    with less.prems(1) show ?thesis
      by (intro spiral_turn_step) simp_all
  next
    case False
    have "(a - 60) mod 360 \<in> set angles"
      and "nat (((a - 60) mod 360 - s) mod 360) < nat ((a - s) mod 360)"
      using less.prems False by (auto simp: angles_def)
    with less.hyps [of "(a - 60) mod 360"] less.prems(2) False less.prems(1) show ?thesis
      by (intro spiral_turn_step) simp_all
  qed
qed

lemma spiral_turn_total:
  assumes "angle \<in> set angles"
  shows "\<exists>r. spiral_turn h sp angle angle = Some r \<and> turn_result h sp r"
proof -
  have "(angle - 60) mod 360 \<in> set angles" "(angle - 60) mod 360 \<noteq> angle"
    using assms by (auto simp: angles_def)
  with spiral_turn_progress [of "(angle - 60) mod 360" angle h sp] assms show ?thesis
    by (intro spiral_turn_step) simp_all
qed

lemma spiral_loop_grown:
  assumes "spiral_loop h n sp angle = Some (Inr sp')" and "angle \<in> set angles"
  shows "grown h n sp sp'"
  using assms
proof (induction "n - length sp" arbitrary: sp angle rule: less_induct)
  case less
  show ?case
  proof (cases "length sp < n")
    case False
    with less.prems(1) show ?thesis
      by (subst (asm) spiral_loop.simps) (auto simp: grown_def max_def)
  next
    case True
    from spiral_turn_total [OF less.prems(2), of h sp] obtain r
      where r: "spiral_turn h sp angle angle = Some r" "turn_result h sp r" by blast
    from less.prems(1) True r obtain a t where at: "r = Inr (a, t)"
      and rec: "spiral_loop h n (sp @ [t]) a = Some (Inr sp')"
      by (subst (asm) spiral_loop.simps) (auto split: sum.splits)
    from r(2) at have a: "a \<in> set angles" and t: "t \<notin> set sp" "\<not> port (h ! t)"
      by (auto simp: turn_result_def)
    have "n - length (sp @ [t]) < n - length sp"
      using True by simp
    from less.hyps [OF this rec a] have "grown h n (sp @ [t]) sp'" .
    with True t show ?thesis
      by (auto simp: grown_def max_def)
  qed
qed

lemma spiral_loop_total:
  assumes "angle \<in> set angles"
  shows "\<exists>r. spiral_loop h n sp angle = Some r"
  using assms
proof (induction "n - length sp" arbitrary: sp angle rule: less_induct)
  case less
  show ?case
  proof (cases "length sp < n")
    case False
    then show ?thesis
      by (subst spiral_loop.simps) simp
  next
    case True
    from spiral_turn_total [OF less.prems, of h sp] obtain r
      where r: "spiral_turn h sp angle angle = Some r" "turn_result h sp r" by blast
    show ?thesis
    proof (cases r)
      case (Inl e)
      with True r show ?thesis
        by (subst spiral_loop.simps) simp
    next
      case (Inr p)
      obtain a t where p: "p = (a, t)" by (cases p)
      from r(2) Inr p have "a \<in> set angles"
        by (simp add: turn_result_def)
      have "n - length (sp @ [t]) < n - length sp"
        using True by simp
      from less.hyps [OF this \<open>a \<in> set angles\<close>] obtain r' where
        "spiral_loop h n (sp @ [t]) a = Some r'" by blast
      with True r Inr p show ?thesis
        by (subst spiral_loop.simps) simp
    qed
  qed
qed

lemma spiral_loop_dead_end:
  assumes "angle \<in> set angles" and "length sp < n"
    and "\<forall>a \<in> set angles. blocked h sp (nbr (h ! last sp) a)"
  shows "spiral_loop h n sp angle = Some (Inl ValueError)"
  using assms by (subst spiral_loop.simps) (simp add: spiral_turn_dead_end)

lemma arrange_spiral_grown:
  assumes "arrange_spiral m = Some (Inr m')"
  shows "\<exists>bottom. grown (heap m) (length (terrain m)) [bottom] (spiral m')"
proof -
  from assms obtain first rest bottom sp where
    "spiral_loop (heap m) (length (terrain m)) [bottom] 60 = Some (Inr sp)" "m' = m\<lparr>spiral := sp\<rparr>"
    by (auto simp: arrange_spiral_def split: list.splits option.splits sum.splits)
  then show ?thesis
    using spiral_loop_grown [of "heap m" "length (terrain m)" "[bottom]" 60 sp]
    by (auto simp: angles_def)
qed

lemma board_spiral:
  "length (terrain standard_board) = 19 \<and> length (spiral standard_board) = 19 \<and>
   distinct (spiral standard_board) \<and>
   list_all (\<lambda>t. \<not> port (heap standard_board ! t)) (spiral standard_board) \<and>
   set (spiral standard_board) = set (terrain standard_board)"
  by code_simp

lemma board_spiral_again: "arrange_spiral standard_board = Some (Inr standard_board)"
  by code_simp

lemma lone_tile_blocked:
  "\<forall>a \<in> set angles. blocked [new_hex default_params] [0] (nbr ([new_hex default_params] ! last [0]) a)"
  by code_simp

text \<open>
  C2. The spiral of the standard board has 19 entries, as many as there are terrain tiles,
  all distinct, none a port. In any map: a walk that stands on a tile whose six directions
  are all blocked (no tile, a visited tile or a port) ends with \<open>ValueError\<close>; the walk
  always ends; and a spiral that \<open>arrange_spiral\<close> returns is never short: it has the
  length of the terrain (one, when there is no terrain), without repetition and, after
  its first tile, without port.
\<close>

theorem spiral_complete:
  "CatanMap False [] = Some (Inr standard_board) \<and>
   length (terrain standard_board) = 19 \<and> length (spiral standard_board) = 19 \<and>
   distinct (spiral standard_board) \<and>
   list_all (\<lambda>t. \<not> port (heap standard_board ! t)) (spiral standard_board) \<and>
   (\<forall>h n sp angle. angle \<in> set angles \<longrightarrow> length sp < n \<longrightarrow>
      (\<forall>a \<in> set angles. blocked h sp (nbr (h ! last sp) a)) \<longrightarrow>
      spiral_loop h n sp angle = Some (Inl ValueError)) \<and>
   (\<forall>h n sp angle. angle \<in> set angles \<longrightarrow> (\<exists>r. spiral_loop h n sp angle = Some r)) \<and>
   (\<forall>m m'. arrange_spiral m = Some (Inr m') \<longrightarrow>
      length (spiral m') = max (length (terrain m)) 1 \<and> distinct (spiral m') \<and>
      (\<forall>t \<in> set (tl (spiral m')). \<not> port (heap m ! t)))"
proof -
  have "length (spiral m') = max (length (terrain m)) 1 \<and> distinct (spiral m') \<and>
      (\<forall>t \<in> set (tl (spiral m')). \<not> port (heap m ! t))"
    if "arrange_spiral m = Some (Inr m')" for m m'
    using arrange_spiral_grown [OF that] by (auto simp: grown_def)
  then show ?thesis
    using CatanMap_value board_spiral spiral_loop_dead_end spiral_loop_total by blast
qed

theorem spiral_complete_witness:
  "spiral_loop [new_hex default_params] 2 [0] 60 = Some (Inl ValueError) \<and>
   (\<exists>r. spiral_loop board_heap 19 [14] 60 = Some r) \<and>
   arrange_spiral standard_board = Some (Inr standard_board) \<and>
   length (spiral standard_board) = max (length (terrain standard_board)) 1 \<and>
   distinct (spiral standard_board)"
proof -
  have a: "(60::int) \<in> set angles" "length [0::nat] < 2"
    by (simp_all add: angles_def)
  from spiral_complete a lone_tile_blocked board_spiral_again show ?thesis
    by blast
qed

section \<open>Links and coordinates\<close>

subsection \<open>Angles and offsets\<close>


lemma angle_opposite_twice: "a \<in> set angles \<Longrightarrow> ((a + 180) mod 360 + 180) mod 360 = a"
  by (auto simp: angles_def)

lemma angle_opposite_neq: "a \<in> set angles \<Longrightarrow> (a + 180) mod 360 \<noteq> a"
  by (auto simp: angles_def)

lemma angle_opposite_inj:
  "a \<in> set angles \<Longrightarrow> b \<in> set angles \<Longrightarrow> (a + 180) mod 360 = (b + 180) mod 360 \<longleftrightarrow> a = b"
  by (auto simp: angles_def)



lemma shifted_inj:
  "a \<in> set angles \<Longrightarrow> b \<in> set angles \<Longrightarrow> shifted s a = shifted s b \<longleftrightarrow> a = b"
  by (auto simp: angles_def shifted_def angle_xy_def)

subsection \<open>set_neighbor and new_neighbor, field by field\<close>

lemma nth_update_field:
  "(\<And>t. f (g t) = f t) \<Longrightarrow> f (h[n := g (h ! n)] ! u) = f (h ! u)"
  by (cases "n < length h") (auto simp: nth_list_update list_update_beyond)

lemma length_set_neighbor [simp]: "length (set_neighbor t a v h) = length h"
  by (simp add: set_neighbor_def)



lemma xy_set_neighbor [simp]: "xy (set_neighbor t a v h ! u) = xy (h ! u)"
  unfolding set_neighbor_def by (rule nth_update_field) (simp add: xy_def)

lemma rest_set_neighbor [simp]:
  "terr (set_neighbor t a v h ! u) = terr (h ! u)"
  "num (set_neighbor t a v h ! u) = num (h ! u)"
  "pips (set_neighbor t a v h ! u) = pips (h ! u)"
  "port (set_neighbor t a v h ! u) = port (h ! u)"
  unfolding set_neighbor_def by (rule nth_update_field, simp)+

lemma length_new_neighbor [simp]: "length (new_neighbor s a n h) = length h"
  by (simp add: new_neighbor_def Let_def split_def)

lemma nth_moved:
  "terr (h[n := (h ! n)\<lparr>hex_x := x, hex_y := y\<rparr>] ! u) = terr (h ! u)"
  "num (h[n := (h ! n)\<lparr>hex_x := x, hex_y := y\<rparr>] ! u) = num (h ! u)"
  "pips (h[n := (h ! n)\<lparr>hex_x := x, hex_y := y\<rparr>] ! u) = pips (h ! u)"
  "port (h[n := (h ! n)\<lparr>hex_x := x, hex_y := y\<rparr>] ! u) = port (h ! u)"
  by (rule nth_update_field, simp)+

lemma nbr_move [simp]: "nbr (t\<lparr>hex_x := x, hex_y := y\<rparr>) b = nbr t b"
  by (simp add: nbr_def)

lemma new_neighbor_unfold:
  "new_neighbor s a n h =
     (set_neighbor n ((a + 180) mod 360) (Some s) (set_neighbor s a (Some n) h))
       [n := (set_neighbor n ((a + 180) mod 360) (Some s) (set_neighbor s a (Some n) h) ! n)
          \<lparr>hex_x := hex_x (h ! s) + fst (angle_xy a), hex_y := hex_y (h ! s) + snd (angle_xy a)\<rparr>]"
proof -
  have "xy (set_neighbor n ((a + 180) mod 360) (Some s) (set_neighbor s a (Some n) h) ! s) = xy (h ! s)"
    by simp
  then show ?thesis
    by (simp add: new_neighbor_def Let_def split_def xy_def)
qed



lemma rest_new_neighbor [simp]:
  "terr (new_neighbor s a n h ! u) = terr (h ! u)"
  "num (new_neighbor s a n h ! u) = num (h ! u)"
  "pips (new_neighbor s a n h ! u) = pips (h ! u)"
  "port (new_neighbor s a n h ! u) = port (h ! u)"
  by (simp_all add: new_neighbor_unfold nth_moved)

subsection \<open>Links that agree with the coordinates\<close>








lemma nbr_new_hex [simp]: "nbr (new_hex p) b = None"
  by (simp add: new_hex_def set_num_def nbr_def angles_def)

lemma xy_new_hex [simp]: "xy (new_hex p) = (0, 0)"
  by (simp add: new_hex_def set_num_def xy_def)




lemma keeps_refl [simp]: "keeps h h"
  by (simp add: keeps_def)











lemma same_tiles_refl [simp]: "same_tiles h h"
  by (simp add: same_tiles_def)











lemma relaid_refl [simp]: "relaid m m"
  by (simp add: relaid_def)















section \<open>Coordinates never change\<close>






section \<open>A layout without validators\<close>

subsection \<open>Shuffling permutes\<close>



subsection \<open>Terrain laid on distinct tiles\<close>


lemma length_set_terr [simp]: "length (set_terr p h) = length h"
  by (cases p) (simp add: set_terr_def)

lemma length_fold_set_terr [simp]: "length (fold set_terr ps h) = length h"
  by (induction ps arbitrary: h) simp_all





subsection \<open>Numbers that are ints raise nothing\<close>

lemma terr_set_num [simp]: "terr (h[n := snd (set_num val (h ! n))] ! u) = terr (h ! u)"
  by (rule nth_update_field [where f = terr and g = "\<lambda>t. snd (set_num val t)"])
     (simp add: set_num_def Let_def split: pynum.splits)




subsection \<open>One pass\<close>








end
